theory Spec2Isabelle
  imports Complex_Main "HOL-Library.Word"
begin

section \<open>The incidence bot: data model\<close>

text \<open>
  The program (\<^verbatim>\<open>main.go\<close>) polls one district of the corona-zahlen API on a cron
  schedule, posts the weekly incidence to a Discord channel and, from 165 on, posts a
  second message that mentions everyone.

  Go strings are byte sequences: \<open>string\<close>. A Go \<^verbatim>\<open>error\<close> is modelled by the text
  its \<^verbatim>\<open>Error()\<close> method returns, a possibly nil error by \<open>go_error option\<close>, a
  possibly nil pointer by \<open>option\<close>. A \<^verbatim>\<open>uint32\<close> is a \<open>32 word\<close>. A \<^verbatim>\<open>float64\<close>
  that the JSON decoder produced is finite, hence a rational number: \<open>rat\<close>.
\<close>

type_synonym go_error = string
type_synonym uint32 = "32 word"
type_synonym float64 = rat

definition endpoint :: string where
  "endpoint = ''https://api.corona-zahlen.org/districts/%s''"

definition key :: string where
  "key = ''09676''"

definition timeFmt :: string where
  "timeFmt = ''02.01.2006''"

record Delta =
  Delta_Cases :: uint32
  Delta_Deaths :: uint32
  Delta_Recovered :: uint32

record District =
  AGS :: string
  Name :: string
  County :: string
  Population :: uint32
  Cases :: uint32
  Deaths :: uint32
  CasesPerWeek :: uint32
  DeathsPerWeek :: uint32
  Recovered :: uint32
  WeekIncidence :: float64
  CasesPer100k :: float64
  Delta :: Delta

record Meta =
  Source :: string
  Contact :: string
  Info :: string
  LastUpdate :: string
  LastCheckedForUpdate :: string

record Response =
  Data :: "string \<rightharpoonup> District"
  Meta :: Meta

record Config =
  Timer :: string
  Token :: string
  ChannelID :: string

text \<open>The zero values Go gives to a fresh struct and to a missing map entry.\<close>

definition Delta_zero :: Delta where
  "Delta_zero = \<lparr>Delta_Cases = 0, Delta_Deaths = 0, Delta_Recovered = 0\<rparr>"

definition District_zero :: District where
  "District_zero =
     \<lparr>AGS = [], Name = [], County = [], Population = 0, Cases = 0, Deaths = 0,
      CasesPerWeek = 0, DeathsPerWeek = 0, Recovered = 0, WeekIncidence = 0,
      CasesPer100k = 0, Delta = Delta_zero\<rparr>"

definition Meta_zero :: Meta where
  "Meta_zero =
     \<lparr>Source = [], Contact = [], Info = [], LastUpdate = [], LastCheckedForUpdate = []\<rparr>"

definition Response_zero :: Response where
  "Response_zero = \<lparr>Data = Map.empty, Meta = Meta_zero\<rparr>"

text \<open>
  Indexing a Go map: a missing key (also in a nil map) yields the zero value of the
  element type, never an error.
\<close>

definition map_index :: "(string \<rightharpoonup> District) \<Rightarrow> string \<Rightarrow> District" where
  "map_index m k = (case m k of None \<Rightarrow> District_zero | Some d \<Rightarrow> d)"

section \<open>The outside world\<close>

text \<open>
  What the libraries return in one tick is an input of the model. \<open>http_Get\<close> is the
  result of \<^verbatim>\<open>client.Get\<close> for a URL (package http returns a response that is not nil
  whenever the error is nil), \<open>Body\<close> what \<^verbatim>\<open>io.ReadAll\<close> returns on the response
  body (the bytes read and an error or nil), \<open>json_Unmarshal\<close> the decoder (it fills
  the record it is given and returns an error or nil), \<open>time_Now\<close> the local time.
  \<open>discord_Channel\<close> and \<open>discord_Guild\<close> are the two lookups of the session, each
  a pointer and an error as Go returns them: the pointer may be nil also when the error
  is nil, and so may an entry of the roles of a guild. \<open>Role_Mention\<close> is the mention
  token of a role. \<open>convert_out_of_range\<close> is the result of converting to \<^verbatim>\<open>uint32\<close>
  a float whose integer part is no \<^verbatim>\<open>uint32\<close>, which Go leaves to the implementation.
  The records of the library types hold the fields the program reads and what
  identifies the value; the time is the local time by its components.
\<close>

record HttpResponse =
  StatusCode :: int
  Body :: "string \<times> go_error option"

record Time =
  Year :: int
  Month :: nat
  Day :: nat
  Hour :: nat
  Minute :: nat
  Second :: nat

record Role =
  Role_ID :: string
  Role_Name :: string

record Channel =
  Channel_ID :: string
  GuildID :: string

record Guild =
  Guild_ID :: string
  Roles :: "Role option list"

record env =
  http_Get :: "string \<Rightarrow> go_error + HttpResponse"
  json_Unmarshal :: "string \<Rightarrow> Response \<Rightarrow> Response \<times> go_error option"
  time_Now :: Time
  discord_Channel :: "string \<Rightarrow> Channel option \<times> go_error option"
  discord_Guild :: "string \<Rightarrow> Guild option \<times> go_error option"
  Role_Mention :: "Role \<Rightarrow> string"
  convert_out_of_range :: "float64 \<Rightarrow> uint32"

text \<open>
  The state of the process: the global \<^verbatim>\<open>config\<close>, the calls of
  \<^verbatim>\<open>ChannelMessageSend\<close> made so far (channel and content; the handler discards what
  each call returns), and the bytes written to the standard error stream.
\<close>

record state =
  config :: Config
  sent :: "(string \<times> string) list"
  stderr :: string

datatype panic = NilDereference

section \<open>Formatting and conversion\<close>

text \<open>Decimal digits of a natural number, as \<^verbatim>\<open>%d\<close> prints an unsigned value.\<close>

definition digit_char :: "nat \<Rightarrow> char" where
  "digit_char d = ''0123456789'' ! d"

function show_nat :: "nat \<Rightarrow> string" where
  "show_nat n = (if n < 10 then [digit_char n] else show_nat (n div 10) @ [digit_char (n mod 10)])"
  by pat_completeness auto
termination
  by (relation "measure id") auto

text \<open>
  \<^verbatim>\<open>appendInt\<close> of package time: a sign for a negative value, then the digits padded
  with zeros to the width.
\<close>

definition appendInt :: "int \<Rightarrow> nat \<Rightarrow> string" where
  "appendInt x width =
     (let ds = show_nat (nat \<bar>x\<bar>)
      in (if x < 0 then ''-'' else []) @ replicate (width - length ds) (CHR ''0'') @ ds)"

text \<open>
  \<^verbatim>\<open>Time.Format\<close>, for the layout elements that \<open>timeFmt\<close> uses: \<^verbatim>\<open>2006\<close> is the year
  on four digits, \<^verbatim>\<open>01\<close> the month and \<^verbatim>\<open>02\<close> the day on two digits; any other byte
  is copied.
\<close>

function Time_Format :: "Time \<Rightarrow> string \<Rightarrow> string" where
  "Time_Format t layout =
     (if layout = [] then []
      else if take 4 layout = ''2006'' then appendInt (Year t) 4 @ Time_Format t (drop 4 layout)
      else if take 2 layout = ''01'' then appendInt (int (Month t)) 2 @ Time_Format t (drop 2 layout)
      else if take 2 layout = ''02'' then appendInt (int (Day t)) 2 @ Time_Format t (drop 2 layout)
      else hd layout # Time_Format t (tl layout))"
  by pat_completeness auto
termination
  by (relation "measure (\<lambda>(t, layout). length layout)") auto

text \<open>Truncation towards zero, the rule of Go's conversion from float to integer.\<close>

definition trunc :: "float64 \<Rightarrow> int" where
  "trunc f = (if f < 0 then \<lceil>f\<rceil> else \<lfloor>f\<rfloor>)"

text \<open>
  \<^verbatim>\<open>uint32(f)\<close> for a float \<open>f\<close>: the fraction is discarded; when the result is no
  \<^verbatim>\<open>uint32\<close> the conversion still yields a \<^verbatim>\<open>uint32\<close>, which one is left to the
  implementation.
\<close>

definition float64_to_uint32 :: "env \<Rightarrow> float64 \<Rightarrow> uint32" where
  "float64_to_uint32 e f =
     (if 0 \<le> trunc f \<and> trunc f < 2 ^ 32 then word_of_int (trunc f)
      else convert_out_of_range e f)"

text \<open>
  \<^verbatim>\<open>fmt.Sprintf\<close> for the verbs the program uses: each \<^verbatim>\<open>%s\<close> and \<^verbatim>\<open>%d\<close> is
  replaced by the next argument, given here as the text it prints as (a string
  itself, an error's message, a number's decimal digits); every other byte is copied.
  Every call of the program passes as many arguments as its format has verbs.
\<close>

fun Sprintf :: "string \<Rightarrow> string list \<Rightarrow> string" where
  "Sprintf (c # d # fmt) (a # args) =
     (if c = CHR ''%'' \<and> (d = CHR ''s'' \<or> d = CHR ''d'') then a @ Sprintf fmt args
      else c # Sprintf (d # fmt) (a # args))"
| "Sprintf fmt args = fmt"

text \<open>
  The texts of the tick handler. The letter after \<^verbatim>\<open>f\<close> in the status message is
  u-umlaut, two bytes in UTF-8.
\<close>

definition status_text :: "string \<Rightarrow> uint32 \<Rightarrow> string" where
  "status_text timestamp incidence =
     Sprintf (''Inzidenzwert f'' @ [CHR 0xC3, CHR 0xBC] @ ''r den %s: **%d**'')
       [timestamp, show_nat (unat incidence)]"

definition alert_text :: "string \<Rightarrow> string" where
  "alert_text mention = Sprintf ''%s Distanzunterricht, wooow'' [mention]"

definition diagnostic_text :: "go_error \<Rightarrow> string" where
  "diagnostic_text err = Sprintf (''could not fetch COVID data: %s'' @ [CHR 0x0A]) [err]"

section \<open>The functions of the program\<close>

text \<open>
  Package flag, as far as \<^verbatim>\<open>init\<close> uses it. \<open>os_Args\<close> is the command line
  after the program name, \<open>vars\<close> the string variables allocated so far (a pointer
  is an index into it) and \<open>formal\<close> the flags defined so far: name, pointer to the
  value, usage text. \<^verbatim>\<open>flag.String\<close> allocates a variable holding the default,
  registers the flag and returns the pointer. Only \<^verbatim>\<open>flag.Parse\<close>, which the program
  never calls, reads \<open>os_Args\<close> and stores into the variables.
\<close>

record flags =
  os_Args :: "string list"
  vars :: "string list"
  formal :: "(string \<times> nat \<times> string) list"

definition flag_String :: "string \<Rightarrow> string \<Rightarrow> string \<Rightarrow> flags \<Rightarrow> nat \<times> flags" where
  "flag_String name val usage f =
     (length (vars f),
      f\<lparr>vars := vars f @ [val], formal := formal f @ [(name, length (vars f), usage)]\<rparr>)"

definition deref :: "flags \<Rightarrow> nat \<Rightarrow> string" where
  "deref f p = vars f ! p"

text \<open>\<^verbatim>\<open>init\<close>: the three flags are defined and read at once.\<close>

definition init :: "flags \<Rightarrow> Config \<times> flags" where
  "init f0 =
     (case flag_String ''timer'' ''0 18 * * *'' ''Specifies the cron notation'' f0 of
        (timer, f1) \<Rightarrow>
     (case flag_String ''token'' [] ''Specifies the Discord bot token'' f1 of
        (token, f2) \<Rightarrow>
     (case flag_String ''channel'' [] ''Specifies the Discord channel to use'' f2 of
        (channelID, f3) \<Rightarrow>
          (\<lparr>Timer = deref f3 timer, Token = deref f3 token, ChannelID = deref f3 channelID\<rparr>,
           f3))))"

text \<open>\<^verbatim>\<open>getCurrentTimestamp\<close>\<close>

definition getCurrentTimestamp :: "env \<Rightarrow> string" where
  "getCurrentTimestamp e = Time_Format (time_Now e) timeFmt"

text \<open>
  \<^verbatim>\<open>fetchData\<close>: a failed request and a failed read return a nil record and the error;
  otherwise a fresh record is decoded into, and returned with whatever the decoder
  returns. The status code of the response is not read.
\<close>

definition fetchData :: "env \<Rightarrow> Response option \<times> go_error option" where
  "fetchData e =
     (case http_Get e (Sprintf endpoint [key]) of
        Inl err \<Rightarrow> (None, Some err)
      | Inr resp \<Rightarrow>
          (case Body resp of
             (bytes, Some err) \<Rightarrow> (None, Some err)
           | (bytes, None) \<Rightarrow>
               (case json_Unmarshal e bytes Response_zero of
                  (r, err) \<Rightarrow> (Some r, err))))"

text \<open>
  The loop of \<^verbatim>\<open>everyone\<close> over the roles of the guild. Reading the name of a nil
  role panics.
\<close>

fun everyone_roles :: "env \<Rightarrow> Role option list \<Rightarrow> panic + string \<times> go_error option" where
  "everyone_roles e [] = Inr ([], Some ''could not find everyone role, what the fuck'')"
| "everyone_roles e (role # roles) =
     (case role of
        None \<Rightarrow> Inl NilDereference
      | Some r \<Rightarrow>
          (if Role_Name r = ''everyone'' then Inr (Role_Mention e r, None)
           else everyone_roles e roles))"

text \<open>
  \<^verbatim>\<open>everyone\<close>: after each lookup the error is tested and then the pointer is
  dereferenced, \<^verbatim>\<open>c.GuildID\<close> and \<^verbatim>\<open>g.Roles\<close>, which panics when it is nil.
\<close>

definition everyone :: "env \<Rightarrow> Config \<Rightarrow> panic + string \<times> go_error option" where
  "everyone e cfg =
     (case discord_Channel e (ChannelID cfg) of
        (c, err) \<Rightarrow>
          (case err of
             Some err \<Rightarrow> Inr ([], Some err)
           | None \<Rightarrow>
               (case c of
                  None \<Rightarrow> Inl NilDereference
                | Some c \<Rightarrow>
                    (case discord_Guild e (GuildID c) of
                       (g, err) \<Rightarrow>
                         (case err of
                            Some err \<Rightarrow> Inr ([], Some err)
                          | None \<Rightarrow>
                              (case g of
                                 None \<Rightarrow> Inl NilDereference
                               | Some g \<Rightarrow> everyone_roles e (Roles g)))))))"

definition ChannelMessageSend :: "string \<Rightarrow> string \<Rightarrow> state \<Rightarrow> state" where
  "ChannelMessageSend channelID content s = s\<lparr>sent := sent s @ [(channelID, content)]\<rparr>"

definition Fprintf_Stderr :: "string \<Rightarrow> state \<Rightarrow> state" where
  "Fprintf_Stderr text s = s\<lparr>stderr := stderr s @ text\<rparr>"

text \<open>
  The derived indicator, \<^verbatim>\<open>uint32(data.Data[key].WeekIncidence)\<close>.
\<close>

definition indicator :: "env \<Rightarrow> Response \<Rightarrow> uint32" where
  "indicator e data = float64_to_uint32 e (WeekIncidence (map_index (Data data) key))"

text \<open>
  The function that \<^verbatim>\<open>main\<close> registers with the scheduler, one call of it. The
  error of the fetch is tested first; only then is the record dereferenced, which
  panics on a nil pointer. A tick either returns, \<open>Inr\<close> with the state it leaves, or
  panics, \<open>Inl\<close> with the state reached by then: what was sent before a panic stays
  sent.
\<close>

definition tick :: "env \<Rightarrow> state \<Rightarrow> panic \<times> state + state" where
  "tick e s =
     (case fetchData e of
        (data, err) \<Rightarrow>
          (case err of
             Some err \<Rightarrow> Inr (Fprintf_Stderr (diagnostic_text err) s)
           | None \<Rightarrow>
               (case data of
                  None \<Rightarrow> Inl (NilDereference, s)
                | Some data \<Rightarrow>
                    (let timestamp = getCurrentTimestamp e;
                         incidence = indicator e data;
                         s1 = ChannelMessageSend (ChannelID (config s))
                                (status_text timestamp incidence) s
                     in if 165 \<le> incidence
                        then (case everyone e (config s1) of
                                Inl p \<Rightarrow> Inl (p, s1)
                              | Inr (mention, _) \<Rightarrow>
                                  Inr (ChannelMessageSend (ChannelID (config s1))
                                         (alert_text mention) s1))
                        else Inr s1))))"

text \<open>
  The messages that a tick started in state \<open>s\<close> has sent, in order, whether it
  returned or panicked.
\<close>

definition emitted :: "state \<Rightarrow> panic \<times> state + state \<Rightarrow> (string \<times> string) list" where
  "emitted s r =
     (case r of
        Inl (p, s') \<Rightarrow> drop (length (sent s)) (sent s')
      | Inr s' \<Rightarrow> drop (length (sent s)) (sent s'))"

text \<open>
  What a call of \<^verbatim>\<open>everyone\<close> yields apart from the error: the panic, or the
  mention it returns.
\<close>

definition mention_of :: "panic + string \<times> go_error option \<Rightarrow> panic + string" where
  "mention_of r = (case r of Inl p \<Rightarrow> Inl p | Inr (mention, err) \<Rightarrow> Inr mention)"

section \<open>Example inputs\<close>

text \<open>
  A response body, the record it decodes to, a guild with a role named \<open>everyone\<close>,
  and an outside world in which the request succeeds with that body and the decoder reads
  the weekly incidence \<open>w\<close> from it. The other worlds differ from it in one library
  result each. \<open>double_164_9\<close> and \<open>double_200_7\<close> are the doubles nearest to 164.9
  and 200.7, as exact fractions.
\<close>

definition double_164_9 :: float64 where
  "double_164_9 = 5801902957448397 / 35184372088832"

definition double_200_7 :: float64 where
  "double_200_7 = 3530751739114291 / 17592186044416"

definition example_body :: "string \<Rightarrow> string" where
  \<open>example_body num = ''{"data":{"09676":{"weekIncidence":'' @ num @ ''}},"meta":{}}''\<close>

definition error_body :: string where
  \<open>error_body = ''{"error":{"message":"Internal Server Error"}}''\<close>

definition example_response :: "float64 \<Rightarrow> Response" where
  "example_response w =
     Response_zero\<lparr>Data := [key \<mapsto> District_zero\<lparr>WeekIncidence := w\<rparr>]\<rparr>"

definition example_roles :: "Role option list" where
  "example_roles =
     [Some \<lparr>Role_ID = ''1'', Role_Name = ''@everyone''\<rparr>,
      Some \<lparr>Role_ID = ''2'', Role_Name = ''everyone''\<rparr>]"

definition example_env :: "string \<Rightarrow> float64 \<Rightarrow> env" where
  "example_env num w =
     \<lparr>http_Get = (\<lambda>url. if url = ''https://api.corona-zahlen.org/districts/09676''
                         then Inr \<lparr>StatusCode = 200, Body = (example_body num, None)\<rparr>
                         else Inl ''unsupported protocol scheme''),
      json_Unmarshal = (\<lambda>bytes r. if bytes = example_body num then (example_response w, None)
                         else (r, Some ''unexpected end of JSON input'')),
      time_Now = \<lparr>Year = 2021, Month = 4, Day = 7, Hour = 18, Minute = 0, Second = 0\<rparr>,
      discord_Channel = (\<lambda>c. (Some \<lparr>Channel_ID = c, GuildID = ''7''\<rparr>, None)),
      discord_Guild = (\<lambda>g. (Some \<lparr>Guild_ID = g, Roles = example_roles\<rparr>, None)),
      Role_Mention = (\<lambda>role. ''<@&'' @ Role_ID role @ ''>''),
      convert_out_of_range = (\<lambda>f. 0)\<rparr>"

definition example_state :: state where
  "example_state =
     \<lparr>config = \<lparr>Timer = ''0 18 * * *'', Token = ''secret'', ChannelID = ''42''\<rparr>,
      sent = [(''42'', ''hello'')], stderr = []\<rparr>"

definition example_state2 :: state where
  "example_state2 =
     \<lparr>config = \<lparr>Timer = ''* * * * *'', Token = ''other'', ChannelID = ''43''\<rparr>,
      sent = [], stderr = ''warning''\<rparr>"

text \<open>The decoded record holds another district only.\<close>

definition env_other_district :: env where
  "env_other_district =
     (example_env ''200.7'' double_200_7)
       \<lparr>json_Unmarshal := (\<lambda>bytes r.
          (r\<lparr>Data := [''09677'' \<mapsto> District_zero\<lparr>WeekIncidence := double_200_7\<rparr>]\<rparr>, None))\<rparr>"

text \<open>The request fails.\<close>

definition env_no_network :: env where
  "env_no_network =
     (example_env ''200.7'' double_200_7)\<lparr>http_Get := (\<lambda>url. Inl ''dial tcp: i/o timeout'')\<rparr>"

text \<open>The server answers 500 with a JSON body that has none of the fields of the record.\<close>

definition env_server_error :: env where
  "env_server_error =
     (example_env ''200.7'' double_200_7)
       \<lparr>json_Unmarshal := (\<lambda>bytes r. if bytes = error_body then (r, None)
                              else (r, Some ''unexpected end of JSON input'')),
        http_Get := (\<lambda>url. Inr \<lparr>StatusCode = 500, Body = (error_body, None)\<rparr>)\<rparr>"

text \<open>The body is empty, which is no JSON.\<close>

definition env_empty_body :: env where
  "env_empty_body =
     (example_env ''200.7'' double_200_7)
       \<lparr>http_Get := (\<lambda>url. Inr \<lparr>StatusCode = 200, Body = ([], None)\<rparr>)\<rparr>"

text \<open>The channel lookup fails.\<close>

definition env_unknown_channel :: env where
  "env_unknown_channel =
     (example_env ''200.7'' double_200_7)
       \<lparr>discord_Channel := (\<lambda>c. (None, Some ''HTTP 404 Not Found''))\<rparr>"

text \<open>The channel lookup returns a nil channel and no error.\<close>

definition env_nil_channel :: env where
  "env_nil_channel =
     (example_env ''200.7'' double_200_7)\<lparr>discord_Channel := (\<lambda>c. (None, None))\<rparr>"

text \<open>No role of the guild is named \<open>everyone\<close>.\<close>

definition env_no_everyone_role :: env where
  "env_no_everyone_role =
     (example_env ''200.7'' double_200_7)
       \<lparr>discord_Guild := (\<lambda>g. (Some \<lparr>Guild_ID = g,
           Roles = [Some \<lparr>Role_ID = ''1'', Role_Name = ''@everyone''\<rparr>,
                    Some \<lparr>Role_ID = ''3'', Role_Name = ''Everyone''\<rparr>]\<rparr>, None))\<rparr>"

text \<open>The same body on the same day, at another time and with another status code.\<close>

definition env_later :: env where
  "env_later =
     (example_env ''200.7'' double_200_7)
       \<lparr>http_Get := (\<lambda>url. Inr \<lparr>StatusCode = 203, Body = (example_body ''200.7'', None)\<rparr>),
        time_Now := \<lparr>Year = 2021, Month = 4, Day = 7, Hour = 23, Minute = 59, Second = 30\<rparr>\<rparr>"

text \<open>A command line that sets all three flags.\<close>

definition example_flags :: flags where
  "example_flags =
     \<lparr>os_Args = [''-timer'', ''*/5 * * * *'', ''-token'', ''secret'', ''-channel'', ''42''],
      vars = [], formal = []\<rparr>"

section \<open>Auxiliary facts\<close>

declare show_nat.simps [simp del]
declare Time_Format.simps [simp del]

subsection \<open>Texts\<close>

lemma url_eq: "Sprintf endpoint [key] = ''https://api.corona-zahlen.org/districts/09676''"
  by (simp add: endpoint_def key_def)

lemma alert_text_eq: "alert_text m = m @ '' Distanzunterricht, wooow''"
  by (simp add: alert_text_def)

lemma diagnostic_text_eq:
  "diagnostic_text err = ''could not fetch COVID data: '' @ err @ [CHR 0x0A]"
  by (simp add: diagnostic_text_def)

lemma status_text_eq:
  "status_text ts i =
     ''Inzidenzwert f'' @ [CHR 0xC3, CHR 0xBC] @ ''r den '' @ ts @ '': **''
       @ show_nat (unat i) @ ''**''"
  by (simp add: status_text_def)

lemma status_ne_alert: "status_text ts i \<noteq> alert_text m"
proof
  assume eq: "status_text ts i = alert_text m"
  have "last (status_text ts i) = CHR ''*''"
    by (simp add: status_text_eq)
  moreover have "last (alert_text m) = CHR ''w''"
    by (simp add: alert_text_eq)
  ultimately show False
    using eq by simp
qed

lemma show_nat_0: "show_nat 0 = ''0''"
  by (simp add: show_nat.simps digit_char_def)

lemma show_nat_200: "show_nat 200 = ''200''"
  by (simp add: show_nat.simps digit_char_def)

subsection \<open>The timestamp\<close>

lemma Time_Format_timeFmt:
  "Time_Format t timeFmt =
     appendInt (int (Day t)) 2 @ ''.'' @ appendInt (int (Month t)) 2 @ ''.'' @ appendInt (Year t) 4"
proof -
  have e0: "Time_Format t [] = []"
    by (simp add: Time_Format.simps)
  have e1: "Time_Format t ''2006'' = appendInt (Year t) 4"
    by (subst Time_Format.simps) (simp add: e0)
  have e2: "Time_Format t ''.2006'' = ''.'' @ appendInt (Year t) 4"
    by (subst Time_Format.simps) (simp add: e1)
  have e3: "Time_Format t ''01.2006'' = appendInt (int (Month t)) 2 @ ''.'' @ appendInt (Year t) 4"
    by (subst Time_Format.simps) (simp add: e2)
  have e4: "Time_Format t ''.01.2006'' =
      ''.'' @ appendInt (int (Month t)) 2 @ ''.'' @ appendInt (Year t) 4"
    by (subst Time_Format.simps) (simp add: e3)
  show ?thesis
    unfolding timeFmt_def by (subst Time_Format.simps) (simp add: e4)
qed

lemma getCurrentTimestamp_date:
  assumes "Year (time_Now e1) = Year (time_Now e2)"
    and "Month (time_Now e1) = Month (time_Now e2)"
    and "Day (time_Now e1) = Day (time_Now e2)"
  shows "getCurrentTimestamp e1 = getCurrentTimestamp e2"
  using assms by (simp add: getCurrentTimestamp_def Time_Format_timeFmt)

lemma timestamp_2021_04_07:
  assumes "Year (time_Now e) = 2021" and "Month (time_Now e) = 4" and "Day (time_Now e) = 7"
  shows "getCurrentTimestamp e = ''07.04.2021''"
  using assms
  by (simp add: getCurrentTimestamp_def Time_Format_timeFmt appendInt_def show_nat.simps
      digit_char_def)

subsection \<open>The conversion\<close>

lemma floor_numeral_div_rat: "\<lfloor>numeral a / numeral b :: rat\<rfloor> = numeral a div numeral b"
  using floor_divide_of_int_eq [of "numeral a" "numeral b", where ?'a = rat] by simp

lemma uint_word_of_trunc:
  "0 \<le> t \<Longrightarrow> t < 2 ^ 32 \<Longrightarrow> uint (word_of_int t :: uint32) = t"
  by (simp add: uint_word_of_int)

lemma trunc_in_range:
  assumes "- 1 < f" and "f < 2 ^ 32"
  shows "0 \<le> trunc f \<and> trunc f < 2 ^ 32"
proof (cases "f < 0")
  case True
  with assms have "\<lceil>f\<rceil> = 0"
    by (simp add: ceiling_eq_iff)
  with True show ?thesis
    by (simp add: trunc_def)
next
  case False
  then have "0 \<le> \<lfloor>f\<rfloor>"
    by simp
  moreover have "\<lfloor>f\<rfloor> < 2 ^ 32"
    using assms(2) by (simp add: floor_less_iff)
  ultimately show ?thesis
    using False by (simp add: trunc_def)
qed

text \<open>
  Whatever the implementation returns out of range, it is a \<^verbatim>\<open>uint32\<close>, so it is not
  the integer part.
\<close>

lemma float64_to_uint32_out_of_range:
  assumes "\<not> (0 \<le> trunc f \<and> trunc f < 2 ^ 32)"
  shows "uint (float64_to_uint32 e f) \<noteq> trunc f"
proof
  assume eq: "uint (float64_to_uint32 e f) = trunc f"
  have "0 \<le> uint (float64_to_uint32 e f)"
    by simp
  moreover have "uint (float64_to_uint32 e f) < 2 ^ 32"
    using uint_bounded [of "float64_to_uint32 e f"] by simp
  ultimately show False
    using assms eq by simp
qed

lemma word_165_le: "(165 \<le> (w::uint32)) = (165 \<le> unat w)"
  by (simp add: word_le_nat_alt)

lemma indicator_missing_key: "Data data key = None \<Longrightarrow> indicator e data = 0"
  by (simp add: indicator_def map_index_def District_zero_def float64_to_uint32_def trunc_def)

lemma indicator_cong:
  "convert_out_of_range e1 = convert_out_of_range e2 \<Longrightarrow> indicator e1 data = indicator e2 data"
  by (simp add: indicator_def float64_to_uint32_def)

lemma indicator_example:
  "0 \<le> w \<Longrightarrow> w < 2 ^ 32 \<Longrightarrow> indicator e (example_response w) = word_of_int \<lfloor>w\<rfloor>"
  by (simp add: indicator_def example_response_def map_index_def float64_to_uint32_def trunc_def
      floor_less_iff)

lemma indicator_200: "indicator e (example_response double_200_7) = 200"
  by (simp add: indicator_example double_200_7_def floor_numeral_div_rat)

subsection \<open>The fetch\<close>

lemma fetchData_not_nil: "fetchData e \<noteq> (None, None)"
  by (simp add: fetchData_def split: sum.splits prod.splits option.splits)

lemma fetchData_cong:
  assumes "http_Get e1 (Sprintf endpoint [key]) = Inr r1"
    and "http_Get e2 (Sprintf endpoint [key]) = Inr r2"
    and "Body r1 = Body r2"
    and "json_Unmarshal e1 = json_Unmarshal e2"
  shows "fetchData e1 = fetchData e2"
  using assms by (simp add: fetchData_def)

lemma fetch_example: "fetchData (example_env num w) = (Some (example_response w), None)"
  by (simp add: fetchData_def url_eq example_env_def)

lemma fetch_other_district:
  "fetchData env_other_district =
     (Some (Response_zero\<lparr>Data := [''09677'' \<mapsto> District_zero\<lparr>WeekIncidence := double_200_7\<rparr>]\<rparr>),
      None)"
  by (simp add: fetchData_def url_eq env_other_district_def example_env_def)

lemma fetch_no_network: "fetchData env_no_network = (None, Some ''dial tcp: i/o timeout'')"
  by (simp add: fetchData_def env_no_network_def)

lemma fetch_unknown_channel:
  "fetchData env_unknown_channel = (Some (example_response double_200_7), None)"
  by (simp add: fetchData_def url_eq env_unknown_channel_def example_env_def)

lemma fetch_nil_channel:
  "fetchData env_nil_channel = (Some (example_response double_200_7), None)"
  by (simp add: fetchData_def url_eq env_nil_channel_def example_env_def)

lemma fetch_no_everyone_role:
  "fetchData env_no_everyone_role = (Some (example_response double_200_7), None)"
  by (simp add: fetchData_def url_eq env_no_everyone_role_def example_env_def)

subsection \<open>The mention\<close>

lemma everyone_roles_error:
  "everyone_roles e roles = Inr (m, Some err) \<Longrightarrow> m = []"
  by (induction roles) (auto split: if_splits option.splits)

lemma everyone_error:
  "everyone e cfg = Inr (m, Some err) \<Longrightarrow> m = []"
  by (auto simp: everyone_def everyone_roles_error split: prod.splits option.splits)

lemma everyone_roles_none:
  "(\<forall>role \<in> set roles. \<exists>r. role = Some r \<and> Role_Name r \<noteq> ''everyone'') \<Longrightarrow>
     everyone_roles e roles = Inr ([], Some ''could not find everyone role, what the fuck'')"
  by (induction roles) auto

lemma everyone_fails:
  assumes "(\<exists>c err. discord_Channel e (ChannelID cfg) = (c, Some err))
     \<or> (\<exists>c g err. discord_Channel e (ChannelID cfg) = (Some c, None)
           \<and> discord_Guild e (GuildID c) = (g, Some err))
     \<or> (\<exists>c g. discord_Channel e (ChannelID cfg) = (Some c, None)
           \<and> discord_Guild e (GuildID c) = (Some g, None)
           \<and> (\<forall>role \<in> set (Roles g). \<exists>r. role = Some r \<and> Role_Name r \<noteq> ''everyone''))"
  shows "\<exists>err. everyone e cfg = Inr ([], Some err)"
  using assms by (auto simp: everyone_def everyone_roles_none)

lemma everyone_example: "everyone (example_env num w) cfg = Inr (''<@&2>'', None)"
  by (simp add: everyone_def example_env_def example_roles_def)

lemma everyone_later: "everyone env_later cfg = Inr (''<@&2>'', None)"
  by (simp add: everyone_def env_later_def example_env_def example_roles_def)

lemma everyone_no_everyone_role:
  "everyone env_no_everyone_role cfg =
     Inr ([], Some ''could not find everyone role, what the fuck'')"
  by (simp add: everyone_def env_no_everyone_role_def example_env_def)

lemma everyone_unknown_channel:
  "everyone env_unknown_channel cfg = Inr ([], Some ''HTTP 404 Not Found'')"
  by (simp add: everyone_def env_unknown_channel_def)

lemma everyone_nil_channel: "everyone env_nil_channel cfg = Inl NilDereference"
  by (simp add: everyone_def env_nil_channel_def)

subsection \<open>The tick\<close>

lemma tick_err:
  "fetchData e = (d, Some err) \<Longrightarrow> tick e s = Inr (s\<lparr>stderr := stderr s @ diagnostic_text err\<rparr>)"
  by (simp add: tick_def Fprintf_Stderr_def)

lemma tick_ok:
  assumes "fetchData e = (Some data, None)"
  shows "tick e s =
     (if 165 \<le> indicator e data
      then (case everyone e (config s) of
              Inl p \<Rightarrow>
                Inl (p, s\<lparr>sent := sent s @
                  [(ChannelID (config s),
                    status_text (getCurrentTimestamp e) (indicator e data))]\<rparr>)
            | Inr (mention, err) \<Rightarrow>
                Inr (s\<lparr>sent := sent s @
                  [(ChannelID (config s),
                    status_text (getCurrentTimestamp e) (indicator e data)),
                   (ChannelID (config s), alert_text mention)]\<rparr>))
      else Inr (s\<lparr>sent := sent s @
                  [(ChannelID (config s),
                    status_text (getCurrentTimestamp e) (indicator e data))]\<rparr>))"
  using assms
  by (simp add: tick_def ChannelMessageSend_def Let_def split: sum.splits prod.splits)

text \<open>
  The record of the fetch is never dereferenced when it is nil: a tick panics only
  inside \<^verbatim>\<open>everyone\<close>, after the status message.
\<close>

lemma tick_panics_in_everyone:
  assumes "tick e s = Inl (p, s')"
  shows "everyone e (config s) = Inl p \<and> length (sent s') = Suc (length (sent s))"
proof (cases "fetchData e")
  case (Pair d err)
  show ?thesis
  proof (cases err)
    case (Some msg)
    with Pair assms show ?thesis
      by (simp add: tick_err)
  next
    case None
    with Pair fetchData_not_nil [of e] obtain data where "fetchData e = (Some data, None)"
      by (cases d) auto
    with assms show ?thesis
      by (auto simp: tick_ok split: if_splits sum.splits prod.splits)
  qed
qed

lemma emitted_err:
  "fetchData e = (d, Some err) \<Longrightarrow> emitted s (tick e s) = []"
  by (simp add: tick_err emitted_def)

lemma emitted_ok:
  assumes "fetchData e = (Some data, None)"
  shows "emitted s (tick e s) =
            (ChannelID (config s), status_text (getCurrentTimestamp e) (indicator e data)) #
            (if 165 \<le> indicator e data
             then (case everyone e (config s) of
                     Inl p \<Rightarrow> []
                   | Inr (mention, err) \<Rightarrow> [(ChannelID (config s), alert_text mention)])
             else [])"
  using assms by (simp add: tick_ok emitted_def split: sum.splits prod.splits)

text \<open>What a tick sends does not depend on what was written to the error stream.\<close>

lemma emitted_stderr:
  "emitted (s\<lparr>stderr := x\<rparr>) (tick e (s\<lparr>stderr := x\<rparr>)) = emitted s (tick e s)"
proof (cases "fetchData e")
  case (Pair d err)
  show ?thesis
  proof (cases err)
    case (Some msg)
    with Pair show ?thesis
      by (simp add: emitted_err)
  next
    case None
    with Pair fetchData_not_nil [of e] obtain data where "fetchData e = (Some data, None)"
      by (cases d) auto
    then show ?thesis
      by (simp add: emitted_ok split: sum.splits prod.splits)
  qed
qed

subsection \<open>The flags\<close>

lemma init_defaults: "fst (init f) = \<lparr>Timer = ''0 18 * * *'', Token = [], ChannelID = []\<rparr>"
  by (simp add: init_def flag_String_def deref_def nth_append)

lemma init_keeps_command_line: "os_Args (snd (init f)) = os_Args f"
  by (simp add: init_def flag_String_def)

section \<open>The threshold\<close>

text \<open>
  C1, as amended. In every tick whose fetch succeeds, the status message is sent, and
  the alert message is sent after it if and only if the derived indicator is at least
  165 and \<^verbatim>\<open>everyone\<close> returns, with or without an error, rather than panicking on
  a nil channel, guild or role. The threshold is an inclusive lower bound: when
  \<^verbatim>\<open>everyone\<close> returns, the alert is sent at 165 and not at 164.
\<close>

theorem alert_iff_threshold:
  assumes "fetchData e = (Some data, None)"
  shows "emitted s (tick e s) =
           (ChannelID (config s), status_text (getCurrentTimestamp e) (indicator e data)) #
           (if 165 \<le> unat (indicator e data)
            then (case everyone e (config s) of
                    Inl p \<Rightarrow> []
                  | Inr (mention, err) \<Rightarrow> [(ChannelID (config s), alert_text mention)])
            else [])
         \<and> ((\<exists>mention. (ChannelID (config s), alert_text mention) \<in> set (emitted s (tick e s)))
            \<longleftrightarrow> 165 \<le> unat (indicator e data) \<and> (\<exists>r. everyone e (config s) = Inr r))"
proof (intro conjI)
  show "emitted s (tick e s) =
           (ChannelID (config s), status_text (getCurrentTimestamp e) (indicator e data)) #
           (if 165 \<le> unat (indicator e data)
            then (case everyone e (config s) of
                    Inl p \<Rightarrow> []
                  | Inr (mention, err) \<Rightarrow> [(ChannelID (config s), alert_text mention)])
            else [])"
    using assms by (simp add: emitted_ok word_165_le)
  show "(\<exists>mention. (ChannelID (config s), alert_text mention) \<in> set (emitted s (tick e s)))
            \<longleftrightarrow> 165 \<le> unat (indicator e data) \<and> (\<exists>r. everyone e (config s) = Inr r)"
  proof (cases "everyone e (config s)")
    case (Inl p)
    have "emitted s (tick e s) =
        [(ChannelID (config s), status_text (getCurrentTimestamp e) (indicator e data))]"
      using assms Inl by (simp add: emitted_ok)
    with Inl show ?thesis
      by (simp add: status_ne_alert [symmetric])
  next
    case (Inr r)
    obtain m x where "r = (m, x)"
      by (cases r)
    with Inr have ev: "everyone e (config s) = Inr (m, x)"
      by simp
    show ?thesis
    proof (cases "165 \<le> unat (indicator e data)")
      case True
      with assms ev have "emitted s (tick e s) =
          [(ChannelID (config s), status_text (getCurrentTimestamp e) (indicator e data)),
           (ChannelID (config s), alert_text m)]"
        by (simp add: emitted_ok word_165_le)
      with True ev show ?thesis
        by auto
    next
      case False
      with assms have "emitted s (tick e s) =
          [(ChannelID (config s), status_text (getCurrentTimestamp e) (indicator e data))]"
        by (simp add: emitted_ok word_165_le)
      with False show ?thesis
        by (simp add: status_ne_alert [symmetric])
    qed
  qed
qed

theorem alert_iff_threshold_witness:
  "emitted example_state (tick (example_env ''165.0'' 165) example_state) =
     [(''42'', ''Inzidenzwert f'' @ [CHR 0xC3, CHR 0xBC] @ ''r den 07.04.2021: **165**''),
      (''42'', ''<@&2> Distanzunterricht, wooow'')]
   \<and> emitted example_state (tick (example_env ''164.0'' 164) example_state) =
     [(''42'', ''Inzidenzwert f'' @ [CHR 0xC3, CHR 0xBC] @ ''r den 07.04.2021: **164**'')]"
proof -
  have ts: "getCurrentTimestamp (example_env num w) = ''07.04.2021''" for num w
    by (rule timestamp_2021_04_07) (simp_all add: example_env_def)
  have i165: "indicator (example_env ''165.0'' 165) (example_response 165) = 165"
    by (simp add: indicator_example)
  have i164: "indicator (example_env ''164.0'' 164) (example_response 164) = 164"
    by (simp add: indicator_example)
  show ?thesis
    using alert_iff_threshold [OF fetch_example [of "''165.0''" 165], of example_state]
      alert_iff_threshold [OF fetch_example [of "''164.0''" 164], of example_state]
    by (simp add: ts i165 i164 everyone_example status_text_eq alert_text_eq show_nat.simps
        digit_char_def example_state_def)
qed

text \<open>
  The claim as stated, that after a successful fetch the alert is sent whenever the
  indicator is at least 165, fails when a lookup of \<^verbatim>\<open>everyone\<close> returns a nil
  pointer and a nil error: with the body
  \<^verbatim>\<open>{"data":{"09676":{"weekIncidence":200.7}},"meta":{}}\<close> and a channel lookup that
  returns nil and no error, the indicator is 200, the status message is sent, reading
  \<^verbatim>\<open>c.GuildID\<close> panics, and no alert is sent.
\<close>

theorem alert_iff_threshold_counterexample:
  "fetchData env_nil_channel = (Some (example_response double_200_7), None)
   \<and> 165 \<le> unat (indicator env_nil_channel (example_response double_200_7))
   \<and> tick env_nil_channel example_state =
       Inl (NilDereference,
            example_state\<lparr>sent := sent example_state @
              [(''42'', ''Inzidenzwert f'' @ [CHR 0xC3, CHR 0xBC] @ ''r den 07.04.2021: **200**'')]\<rparr>)
   \<and> emitted example_state (tick env_nil_channel example_state) =
       [(''42'', ''Inzidenzwert f'' @ [CHR 0xC3, CHR 0xBC] @ ''r den 07.04.2021: **200**'')]"
proof -
  have ts: "getCurrentTimestamp env_nil_channel = ''07.04.2021''"
    by (rule timestamp_2021_04_07) (simp_all add: env_nil_channel_def example_env_def)
  have t: "tick env_nil_channel example_state =
       Inl (NilDereference,
            example_state\<lparr>sent := sent example_state @
              [(''42'', ''Inzidenzwert f'' @ [CHR 0xC3, CHR 0xBC] @ ''r den 07.04.2021: **200**'')]\<rparr>)"
    by (simp add: tick_ok [OF fetch_nil_channel] indicator_200 everyone_nil_channel ts
        status_text_eq show_nat_200 example_state_def)
  show ?thesis
    by (simp add: fetch_nil_channel indicator_200 t) (simp add: emitted_def example_state_def)
qed

section \<open>The derived indicator\<close>

text \<open>
  C2, as amended. For every decoded response that contains the region key \<open>09676\<close> and
  whose weekly incidence lies strictly between \<open>-1\<close> and \<open>2 ^ 32\<close>, the derived
  indicator is the weekly incidence truncated towards zero: 164.9 yields 164 and 165.0
  yields 165.
\<close>

theorem indicator_truncates:
  assumes "Data data key = Some d"
    and "- 1 < WeekIncidence d" and "WeekIncidence d < 2 ^ 32"
  shows "uint (indicator e data) = trunc (WeekIncidence d)"
  using assms trunc_in_range [of "WeekIncidence d"]
  by (simp add: indicator_def map_index_def float64_to_uint32_def uint_word_of_trunc)

theorem indicator_truncates_witness:
  "uint (indicator (example_env ''164.9'' double_164_9) (example_response double_164_9)) = 164
   \<and> uint (indicator (example_env ''165.0'' 165) (example_response 165)) = 165"
  using indicator_truncates [of "example_response double_164_9"
      "District_zero\<lparr>WeekIncidence := double_164_9\<rparr>" "example_env ''164.9'' double_164_9"]
    indicator_truncates [of "example_response 165" "District_zero\<lparr>WeekIncidence := 165\<rparr>"
      "example_env ''165.0'' 165"]
  by (simp add: example_response_def trunc_def double_164_9_def floor_numeral_div_rat)

text \<open>
  The claim as stated, for every decoded response that contains the key, fails on a
  weekly incidence whose integer part is no \<^verbatim>\<open>uint32\<close>: the body
  \<^verbatim>\<open>{"data":{"09676":{"weekIncidence":-5}},"meta":{}}\<close> decodes, the truncated value
  is \<open>-5\<close>, and the indicator, a \<^verbatim>\<open>uint32\<close>, is another number.
\<close>

theorem indicator_truncates_counterexample:
  "fetchData (example_env ''-5'' (- 5)) = (Some (example_response (- 5)), None)
   \<and> Data (example_response (- 5)) key = Some (District_zero\<lparr>WeekIncidence := - 5\<rparr>)
   \<and> trunc (WeekIncidence (District_zero\<lparr>WeekIncidence := - 5\<rparr>)) = - 5
   \<and> uint (indicator (example_env ''-5'' (- 5)) (example_response (- 5)))
       \<noteq> trunc (WeekIncidence (District_zero\<lparr>WeekIncidence := - 5\<rparr>))"
proof -
  have t: "trunc (- 5) = - 5"
    by (simp add: trunc_def)
  have "uint (float64_to_uint32 (example_env ''-5'' (- 5)) (- 5)) \<noteq> trunc (- 5)"
    by (rule float64_to_uint32_out_of_range) (simp add: t)
  then show ?thesis
    by (simp add: fetch_example example_response_def indicator_def map_index_def t)
qed

text \<open>
  C5. When the fetch succeeds and the decoded record has no entry for the region key,
  the derived indicator is zero, nothing is written to the error stream, and the tick
  sends the status message, which displays 0, and nothing else.
\<close>

theorem missing_key_zero:
  assumes "fetchData e = (Some data, None)" and "Data data key = None"
  shows "indicator e data = 0
    \<and> tick e s =
        Inr (s\<lparr>sent := sent s @
               [(ChannelID (config s),
                 ''Inzidenzwert f'' @ [CHR 0xC3, CHR 0xBC] @ ''r den '' @ getCurrentTimestamp e
                   @ '': **0**'')]\<rparr>)"
  using assms by (simp add: tick_ok indicator_missing_key status_text_eq show_nat_0)

theorem missing_key_zero_witness:
  "tick env_other_district example_state =
     Inr (example_state\<lparr>sent := sent example_state @
        [(''42'', ''Inzidenzwert f'' @ [CHR 0xC3, CHR 0xBC] @ ''r den 07.04.2021: **0**'')]\<rparr>)"
proof -
  have k: "Data (Response_zero\<lparr>Data := [''09677'' \<mapsto> District_zero\<lparr>WeekIncidence := double_200_7\<rparr>]\<rparr>)
      key = None"
    by (simp add: key_def)
  have ts: "getCurrentTimestamp env_other_district = ''07.04.2021''"
    by (rule timestamp_2021_04_07) (simp_all add: env_other_district_def example_env_def)
  show ?thesis
    using missing_key_zero [OF fetch_other_district k, of example_state]
    by (simp add: ts example_state_def)
qed

section \<open>Failures of the fetch\<close>

text \<open>
  C4. When the fetch returns an error, the tick writes the diagnostic
  \<^verbatim>\<open>could not fetch COVID data: \<close> followed by the error and a newline to the standard
  error stream and changes nothing else: no message is sent, the configuration is as
  before, and what the next tick sends is what it would have sent without the failed one.
\<close>

theorem fetch_error_tick:
  assumes "fetchData e = (d, Some err)"
  shows "tick e s =
      Inr (s\<lparr>stderr := stderr s @ ''could not fetch COVID data: '' @ err @ [CHR 0x0A]\<rparr>)
    \<and> emitted s (tick e s) = []
    \<and> emitted (s\<lparr>stderr := stderr s @ ''could not fetch COVID data: '' @ err @ [CHR 0x0A]\<rparr>)
         (tick e' (s\<lparr>stderr := stderr s @ ''could not fetch COVID data: '' @ err @ [CHR 0x0A]\<rparr>))
       = emitted s (tick e' s)"
proof (intro conjI)
  show "tick e s =
      Inr (s\<lparr>stderr := stderr s @ ''could not fetch COVID data: '' @ err @ [CHR 0x0A]\<rparr>)"
    using assms by (simp add: tick_err diagnostic_text_eq)
  show "emitted s (tick e s) = []"
    using assms by (rule emitted_err)
  show "emitted (s\<lparr>stderr := stderr s @ ''could not fetch COVID data: '' @ err @ [CHR 0x0A]\<rparr>)
         (tick e' (s\<lparr>stderr := stderr s @ ''could not fetch COVID data: '' @ err @ [CHR 0x0A]\<rparr>))
       = emitted s (tick e' s)"
    by (rule emitted_stderr)
qed

theorem fetch_error_tick_witness:
  "tick env_no_network example_state =
     Inr (example_state\<lparr>stderr :=
        ''could not fetch COVID data: dial tcp: i/o timeout'' @ [CHR 0x0A]\<rparr>)
   \<and> emitted example_state (tick env_no_network example_state) = []"
  using fetch_error_tick [OF fetch_no_network, of example_state env_no_network]
  by (simp add: example_state_def emitted_def)

text \<open>
  C8. \<^verbatim>\<open>fetchData\<close> does not read the status code: whatever the status code of the
  response, if the body is read and decodes without error, the fetch returns the decoded
  record and no error. A 500 response with a JSON error body is a successful fetch, and
  its indicator is zero.
\<close>

theorem status_code_ignored:
  assumes "Body resp = (bytes, None)"
    and "json_Unmarshal e bytes Response_zero = (r, None)"
  shows "fetchData (e\<lparr>http_Get := (\<lambda>url. Inr (resp\<lparr>StatusCode := code\<rparr>))\<rparr>) = (Some r, None)"
  using assms by (simp add: fetchData_def)

theorem status_code_ignored_witness:
  "fetchData env_server_error = (Some Response_zero, None)
   \<and> indicator env_server_error Response_zero = 0"
  using status_code_ignored [of "\<lparr>StatusCode = 200, Body = (error_body, None)\<rparr>" error_body
      "(example_env ''200.7'' double_200_7)
         \<lparr>json_Unmarshal := (\<lambda>bytes r. if bytes = error_body then (r, None)
                                else (r, Some ''unexpected end of JSON input''))\<rparr>"
      Response_zero 500]
  by (simp add: env_server_error_def indicator_missing_key Response_zero_def)

text \<open>
  C9. When the request succeeds, the body is read and the decoder returns an error,
  \<^verbatim>\<open>fetchData\<close> returns a record that is not nil together with the error. The tick
  handler tests the error, not the record: it writes the diagnostic and stops.
\<close>

theorem decode_failure_returns_record:
  assumes "http_Get e (Sprintf endpoint [key]) = Inr resp"
    and "Body resp = (bytes, None)"
    and "json_Unmarshal e bytes Response_zero = (r, Some err)"
  shows "fetchData e = (Some r, Some err)
    \<and> tick e s =
        Inr (s\<lparr>stderr := stderr s @ ''could not fetch COVID data: '' @ err @ [CHR 0x0A]\<rparr>)"
proof -
  have "fetchData e = (Some r, Some err)"
    using assms by (simp add: fetchData_def)
  then show ?thesis
    by (simp add: tick_err diagnostic_text_eq)
qed

theorem decode_failure_returns_record_witness:
  "fetchData env_empty_body = (Some Response_zero, Some ''unexpected end of JSON input'')
   \<and> tick env_empty_body example_state =
       Inr (example_state\<lparr>stderr :=
          ''could not fetch COVID data: unexpected end of JSON input'' @ [CHR 0x0A]\<rparr>)"
  using decode_failure_returns_record [of env_empty_body
      "\<lparr>StatusCode = 200, Body = ([], None)\<rparr>" "[]" Response_zero
      "''unexpected end of JSON input''" example_state]
  by (simp add: env_empty_body_def example_env_def example_body_def example_state_def)

section \<open>Failures of the mention\<close>

text \<open>
  C3, as amended. In every tick whose indicator is at least 165 and in which the mention
  is not resolved (the channel lookup returns an error, the guild lookup returns an
  error, or the roles of the guild are all there and none is named exactly
  \<open>everyone\<close>), \<^verbatim>\<open>everyone\<close> returns the empty string and an error, the status
  message is still sent first, and the alert message is sent after it as well, with
  nothing in the place of the mention.
\<close>

theorem mention_failure_still_alerts:
  assumes "fetchData e = (Some data, None)"
    and "165 \<le> unat (indicator e data)"
    and "(\<exists>c err. discord_Channel e (ChannelID (config s)) = (c, Some err))
     \<or> (\<exists>c g err. discord_Channel e (ChannelID (config s)) = (Some c, None)
           \<and> discord_Guild e (GuildID c) = (g, Some err))
     \<or> (\<exists>c g. discord_Channel e (ChannelID (config s)) = (Some c, None)
           \<and> discord_Guild e (GuildID c) = (Some g, None)
           \<and> (\<forall>role \<in> set (Roles g). \<exists>r. role = Some r \<and> Role_Name r \<noteq> ''everyone''))"
  shows "(\<exists>err. everyone e (config s) = Inr ([], Some err))
    \<and> emitted s (tick e s) =
        [(ChannelID (config s), status_text (getCurrentTimestamp e) (indicator e data)),
         (ChannelID (config s), alert_text [])]"
proof -
  from assms(3) obtain err where "everyone e (config s) = Inr ([], Some err)"
    using everyone_fails [of e "config s"] by blast
  with assms(1,2) show ?thesis
    by (simp add: emitted_ok word_165_le)
qed

theorem mention_failure_still_alerts_witness:
  "emitted example_state (tick env_no_everyone_role example_state) =
     [(''42'', ''Inzidenzwert f'' @ [CHR 0xC3, CHR 0xBC] @ ''r den 07.04.2021: **200**''),
      (''42'', '' Distanzunterricht, wooow'')]"
proof -
  have i: "165 \<le> unat (indicator env_no_everyone_role (example_response double_200_7))"
    by (simp add: indicator_200)
  have m: "(\<exists>c err. discord_Channel env_no_everyone_role (ChannelID (config example_state))
             = (c, Some err))
     \<or> (\<exists>c g err. discord_Channel env_no_everyone_role (ChannelID (config example_state))
             = (Some c, None)
           \<and> discord_Guild env_no_everyone_role (GuildID c) = (g, Some err))
     \<or> (\<exists>c g. discord_Channel env_no_everyone_role (ChannelID (config example_state))
             = (Some c, None)
           \<and> discord_Guild env_no_everyone_role (GuildID c) = (Some g, None)
           \<and> (\<forall>role \<in> set (Roles g). \<exists>r. role = Some r \<and> Role_Name r \<noteq> ''everyone''))"
    by (simp add: env_no_everyone_role_def example_env_def)
  have ts: "getCurrentTimestamp env_no_everyone_role = ''07.04.2021''"
    by (rule timestamp_2021_04_07) (simp_all add: env_no_everyone_role_def example_env_def)
  show ?thesis
    using mention_failure_still_alerts [OF fetch_no_everyone_role i m]
    by (simp add: ts indicator_200 status_text_eq show_nat_200 alert_text_eq example_state_def)
qed

text \<open>
  The claim as stated, that the alert is not sent then, fails: with the body
  \<^verbatim>\<open>{"data":{"09676":{"weekIncidence":200.7}},"meta":{}}\<close> and a guild whose roles are
  named \<open>@everyone\<close> and \<open>Everyone\<close>, the indicator is 200, \<^verbatim>\<open>everyone\<close> returns
  an error, and the tick sends the status message and the alert message.
\<close>

theorem mention_failure_counterexample:
  "fetchData env_no_everyone_role = (Some (example_response double_200_7), None)
   \<and> 165 \<le> unat (indicator env_no_everyone_role (example_response double_200_7))
   \<and> everyone env_no_everyone_role (config example_state) =
       Inr ([], Some ''could not find everyone role, what the fuck'')
   \<and> tick env_no_everyone_role example_state =
       Inr (example_state\<lparr>sent := sent example_state @
         [(''42'', ''Inzidenzwert f'' @ [CHR 0xC3, CHR 0xBC] @ ''r den 07.04.2021: **200**''),
          (''42'', '' Distanzunterricht, wooow'')]\<rparr>)"
proof -
  have ts: "getCurrentTimestamp env_no_everyone_role = ''07.04.2021''"
    by (rule timestamp_2021_04_07) (simp_all add: env_no_everyone_role_def example_env_def)
  show ?thesis
    by (simp add: fetch_no_everyone_role indicator_200 everyone_no_everyone_role tick_ok ts
        status_text_eq show_nat_200 alert_text_eq example_state_def)
qed

text \<open>
  C10. In every tick whose indicator is at least 165 and in which \<^verbatim>\<open>everyone\<close>
  returns an error, the handler discards the error (nothing is written to the error
  stream) and sends the alert message all the same, with the empty string for the
  mention: its text is \<^verbatim>\<open> Distanzunterricht, wooow\<close>, with the leading space.
\<close>

theorem alert_sent_despite_error:
  assumes "fetchData e = (Some data, None)"
    and "165 \<le> unat (indicator e data)"
    and "everyone e (config s) = Inr (mention, Some err)"
  shows "tick e s =
     Inr (s\<lparr>sent := sent s @
            [(ChannelID (config s), status_text (getCurrentTimestamp e) (indicator e data)),
             (ChannelID (config s), '' Distanzunterricht, wooow'')]\<rparr>)"
  using assms everyone_error [of e "config s" mention err]
  by (simp add: tick_ok word_165_le alert_text_eq)

theorem alert_sent_despite_error_witness:
  "tick env_unknown_channel example_state =
     Inr (example_state\<lparr>sent := sent example_state @
        [(''42'', ''Inzidenzwert f'' @ [CHR 0xC3, CHR 0xBC] @ ''r den 07.04.2021: **200**''),
         (''42'', '' Distanzunterricht, wooow'')]\<rparr>)"
proof -
  have i: "165 \<le> unat (indicator env_unknown_channel (example_response double_200_7))"
    by (simp add: indicator_200)
  have ev: "everyone env_unknown_channel (config example_state) =
      Inr ([], Some ''HTTP 404 Not Found'')"
    by (rule everyone_unknown_channel)
  have ts: "getCurrentTimestamp env_unknown_channel = ''07.04.2021''"
    by (rule timestamp_2021_04_07) (simp_all add: env_unknown_channel_def example_env_def)
  show ?thesis
    using alert_sent_despite_error [OF fetch_unknown_channel i ev]
    by (simp add: ts indicator_200 status_text_eq show_nat_200 example_state_def)
qed

section \<open>Determinism\<close>

text \<open>
  C7. Two ticks whose requests succeed with the same body bytes, decoded by the same
  decoder on the same platform, on the same calendar day, send the same status text,
  whatever the time of day, the status code, the channel and the earlier output; when
  in addition \<^verbatim>\<open>everyone\<close> yields the same in both (the same mention, or a panic in
  both), all the texts they send are the same.
\<close>

theorem tick_text_deterministic:
  assumes "http_Get e1 (Sprintf endpoint [key]) = Inr r1"
    and "http_Get e2 (Sprintf endpoint [key]) = Inr r2"
    and "Body r1 = Body r2"
    and "json_Unmarshal e1 = json_Unmarshal e2"
    and "convert_out_of_range e1 = convert_out_of_range e2"
    and "Year (time_Now e1) = Year (time_Now e2)"
    and "Month (time_Now e1) = Month (time_Now e2)"
    and "Day (time_Now e1) = Day (time_Now e2)"
  shows "map snd (take 1 (emitted s1 (tick e1 s1))) = map snd (take 1 (emitted s2 (tick e2 s2)))
    \<and> (mention_of (everyone e1 (config s1)) = mention_of (everyone e2 (config s2)) \<longrightarrow>
         map snd (emitted s1 (tick e1 s1)) = map snd (emitted s2 (tick e2 s2)))"
proof -
  have f: "fetchData e1 = fetchData e2"
    using assms(1-4) by (rule fetchData_cong)
  have t: "getCurrentTimestamp e1 = getCurrentTimestamp e2"
    using assms(6-8) by (rule getCurrentTimestamp_date)
  show ?thesis
  proof (cases "fetchData e2")
    case (Pair d err)
    show ?thesis
    proof (cases err)
      case (Some msg)
      with Pair f show ?thesis
        by (simp add: emitted_err)
    next
      case None
      with Pair fetchData_not_nil [of e2] obtain data where d: "fetchData e2 = (Some data, None)"
        by (cases d) auto
      with f have "fetchData e1 = (Some data, None)"
        by simp
      with d t indicator_cong [OF assms(5), of data] show ?thesis
        by (auto simp: emitted_ok mention_of_def split: sum.splits prod.splits)
    qed
  qed
qed

theorem tick_text_deterministic_witness:
  "map snd (emitted example_state (tick (example_env ''200.7'' double_200_7) example_state)) =
     map snd (emitted example_state2 (tick env_later example_state2))
   \<and> map snd (emitted example_state2 (tick env_later example_state2)) =
     [''Inzidenzwert f'' @ [CHR 0xC3, CHR 0xBC] @ ''r den 07.04.2021: **200**'',
      ''<@&2> Distanzunterricht, wooow'']"
proof -
  have f2: "fetchData env_later = (Some (example_response double_200_7), None)"
    by (simp add: fetchData_def env_later_def example_env_def)
  have ts: "getCurrentTimestamp env_later = ''07.04.2021''"
    by (rule timestamp_2021_04_07) (simp_all add: env_later_def)
  have texts: "map snd (emitted example_state2 (tick env_later example_state2)) =
     [''Inzidenzwert f'' @ [CHR 0xC3, CHR 0xBC] @ ''r den 07.04.2021: **200**'',
      ''<@&2> Distanzunterricht, wooow'']"
    by (simp add: emitted_ok [OF f2] indicator_200 ts everyone_later status_text_eq
        show_nat_200 alert_text_eq)
  have g1: "http_Get (example_env ''200.7'' double_200_7) (Sprintf endpoint [key]) =
      Inr \<lparr>StatusCode = 200, Body = (example_body ''200.7'', None)\<rparr>"
    by (simp add: url_eq example_env_def)
  have g2: "http_Get env_later (Sprintf endpoint [key]) =
      Inr \<lparr>StatusCode = 203, Body = (example_body ''200.7'', None)\<rparr>"
    by (simp add: env_later_def)
  have b: "Body \<lparr>StatusCode = 200, Body = (example_body ''200.7'', None)\<rparr> =
      Body \<lparr>StatusCode = 203, Body = (example_body ''200.7'', None)\<rparr>"
    by simp
  have u: "json_Unmarshal (example_env ''200.7'' double_200_7) = json_Unmarshal env_later"
    by (simp add: env_later_def)
  have c: "convert_out_of_range (example_env ''200.7'' double_200_7) =
      convert_out_of_range env_later"
    by (simp add: env_later_def)
  have y: "Year (time_Now (example_env ''200.7'' double_200_7)) = Year (time_Now env_later)"
    by (simp add: env_later_def example_env_def)
  have m: "Month (time_Now (example_env ''200.7'' double_200_7)) = Month (time_Now env_later)"
    by (simp add: env_later_def example_env_def)
  have d: "Day (time_Now (example_env ''200.7'' double_200_7)) = Day (time_Now env_later)"
    by (simp add: env_later_def example_env_def)
  show ?thesis
    using tick_text_deterministic [OF g1 g2 b u c y m d, of example_state example_state2]
    by (simp add: everyone_example everyone_later texts mention_of_def)
qed

section \<open>The configuration\<close>

text \<open>
  C6. \<^verbatim>\<open>init\<close> defines the three flags with the defaults \<^verbatim>\<open>0 18 * * *\<close>, empty and
  empty, and copies their values into the configuration at once. The command line is
  not parsed before that (nor after): with a command line that sets all three flags,
  the configuration still holds the three defaults.
\<close>

theorem init_ignores_command_line:
  "os_Args example_flags =
      [''-timer'', ''*/5 * * * *'', ''-token'', ''secret'', ''-channel'', ''42'']
   \<and> fst (init example_flags) = \<lparr>Timer = ''0 18 * * *'', Token = [], ChannelID = []\<rparr>"
  by (simp add: init_def flag_String_def deref_def example_flags_def)

end
